theory Spec2Isabelle
  imports
    Main
    "HOL-Library.Char_ord"
    "HOL-Library.List_Lexorder"
    "HOL-Library.Product_Lexorder"
    "HOL-Library.Multiset"
    "HOL-Library.Sublist"
begin

section \<open>Common Python notions\<close>

text \<open>
  The repository is a Python pipeline: a paper collector, a topic generator, a topic
  evaluator, a topic translator, a report renderer and two drivers. Everything that leaves
  the process (HTTP, the vector store, the language model, the file system, the clock) is a
  parameter of the model: a function from a world state \<open>'w\<close> to an outcome and the next
  world state, the outcome being an exception (\<open>Inl\<close>) or a value (\<open>Inr\<close>). A Python
  \<open>str\<close> is a \<open>string\<close>, one \<open>char\<close> per code point (code points below 256), ordered
  by code point as Python orders strings. Python's unbounded \<open>int\<close> is \<open>int\<close>.
\<close>

datatype exn = JSONDecodeError | TypeError | ValueError | OtherException

text \<open>\<open>sep.join(xs)\<close>.\<close>

fun py_join :: "string \<Rightarrow> string list \<Rightarrow> string" where
  "py_join sep [] = []"
| "py_join sep [x] = x"
| "py_join sep (x # y # ys) = x @ sep @ py_join sep (y # ys)"

text \<open>
  \<open>s.find(sub)\<close> for a non-empty \<open>sub\<close>: the index of the first occurrence, \<open>None\<close> for
  Python's \<open>-1\<close>.
\<close>

fun py_find :: "string \<Rightarrow> string \<Rightarrow> nat option" where
  "py_find sub [] = (if sub = [] then Some 0 else None)"
| "py_find sub (c # cs) =
     (if prefix sub (c # cs) then Some 0
      else (case py_find sub cs of None \<Rightarrow> None | Some i \<Rightarrow> Some (Suc i)))"

text \<open>\<open>sub in s\<close>.\<close>

definition py_contains :: "string \<Rightarrow> string \<Rightarrow> bool" where
  "py_contains sub s = (py_find sub s \<noteq> None)"

text \<open>
  \<open>s.split(sep)\<close> for a non-empty \<open>sep\<close>: the pieces between the non-overlapping
  occurrences of \<open>sep\<close>, found from the left. The second argument holds the characters of
  the current piece, last first. An empty \<open>sep\<close> raises \<open>ValueError\<close> in Python; the
  model then returns the whole string as one piece and is not used there.
\<close>

function py_split_from :: "string \<Rightarrow> string \<Rightarrow> string \<Rightarrow> string list" where
  "py_split_from sep piece [] = [rev piece]"
| "py_split_from sep piece (c # cs) =
     (if sep \<noteq> [] \<and> prefix sep (c # cs)
      then rev piece # py_split_from sep [] (drop (length sep) (c # cs))
      else py_split_from sep (c # piece) cs)"
  by pat_completeness auto
termination
  by (relation "measure (\<lambda>(sep, piece, s). length s)") (auto simp: prefix_def)

definition py_split :: "string \<Rightarrow> string \<Rightarrow> string list" where
  "py_split sep s = py_split_from sep [] s"

section \<open>Paper Collector (agents/collector.py)\<close>

text \<open>
  One work of the metadata API's \<open>results\<close> array, with the fields \<open>fetch_papers\<close> reads,
  in the shape the API gives them: the authorships and the institutions of an authorship are
  lists (empty when absent), the author of an authorship is an object. A title, an inverted
  index, an identifier, a year or a display name that is absent or \<open>null\<close> is \<open>None\<close>. On
  a result of another shape the loop raises inside the \<open>try\<close>, which has the effect of a
  failed request: the outcome \<open>Inl\<close> of \<open>http_get_results\<close> below stands for both.
\<close>

record authorship =
  author_display_name :: "string option"
  institution_display_names :: "string option list"

record api_result =
  result_title :: "string option"
  result_abstract_inverted_index :: "(string \<times> int list) list option"
  result_authorships :: "authorship list"
  result_id :: "string option"
  result_publication_year :: "int option"

text \<open>The paper record that \<open>fetch_papers\<close> builds (a dict in the source).\<close>

record paper =
  paper_title :: string
  paper_abstract :: string
  paper_url :: "string option"
  paper_publication_year :: "int option"
  paper_authors :: "string list"
  paper_institutions :: "string list"

subsection \<open>\<open>_reconstruct_abstract\<close>\<close>

text \<open>
  The inverted index is a dict from a word to its positions, given by its items in
  iteration order. The two nested loops append one \<open>(pos, word)\<close> pair per position;
  \<open>word_positions.sort()\<close> orders the pairs as tuples (by position, then by word).
\<close>

definition append_positions :: "string \<times> int list \<Rightarrow> (int \<times> string) list \<Rightarrow> (int \<times> string) list" where
  "append_positions item word_positions =
     (case item of (word, positions) \<Rightarrow>
        fold (\<lambda>pos acc. acc @ [(pos, word)]) positions word_positions)"

definition reconstruct_abstract :: "(string \<times> int list) list option \<Rightarrow> string" where
  "reconstruct_abstract inverted_index =
     (case inverted_index of
        None \<Rightarrow> []
      | Some [] \<Rightarrow> []
      | Some (item # items) \<Rightarrow>
          py_join '' '' (map snd (sort (fold append_positions (item # items) []))))"

subsection \<open>\<open>fetch_papers\<close>\<close>

text \<open>\<open>if inst_name and inst_name not in institutions: institutions.append(inst_name)\<close>.\<close>

definition add_institution :: "string option \<Rightarrow> string list \<Rightarrow> string list" where
  "add_institution inst_name institutions =
     (case inst_name of
        None \<Rightarrow> institutions
      | Some n \<Rightarrow> if n \<noteq> [] \<and> n \<notin> set institutions then institutions @ [n] else institutions)"

text \<open>The body of the loop over \<open>authorships[:AUTHORS_LIMIT]\<close>.\<close>

definition add_authorship :: "authorship \<Rightarrow> string list \<times> string list \<Rightarrow> string list \<times> string list" where
  "add_authorship a acc =
     (case acc of (authors, institutions) \<Rightarrow>
        ((case author_display_name a of
            None \<Rightarrow> authors
          | Some n \<Rightarrow> if n \<noteq> [] then authors @ [n] else authors),
         fold add_institution (institution_display_names a) institutions))"

definition collect_authorships :: "nat \<Rightarrow> nat \<Rightarrow> authorship list \<Rightarrow> string list \<times> string list" where
  "collect_authorships authors_limit institutions_limit authorships =
     (case fold add_authorship (take authors_limit authorships) ([], []) of
        (authors, institutions) \<Rightarrow> (authors, take institutions_limit institutions))"

text \<open>One pass of the loop over \<open>results\<close>: the paper appended, if any.\<close>

definition paper_of_result :: "nat \<Rightarrow> nat \<Rightarrow> api_result \<Rightarrow> paper option" where
  "paper_of_result authors_limit institutions_limit r =
     (let abstract = reconstruct_abstract (result_abstract_inverted_index r);
          collected = collect_authorships authors_limit institutions_limit (result_authorships r)
      in (case result_title r of
            None \<Rightarrow> None
          | Some t \<Rightarrow>
              if t \<noteq> [] \<and> abstract \<noteq> []
              then Some \<lparr>paper_title = t, paper_abstract = abstract, paper_url = result_id r,
                        paper_publication_year = result_publication_year r,
                        paper_authors = fst collected, paper_institutions = snd collected\<rparr>
              else None))"

fun papers_of_results :: "nat \<Rightarrow> nat \<Rightarrow> api_result list \<Rightarrow> paper list" where
  "papers_of_results authors_limit institutions_limit [] = []"
| "papers_of_results authors_limit institutions_limit (r # rs) =
     (case paper_of_result authors_limit institutions_limit r of
        None \<Rightarrow> papers_of_results authors_limit institutions_limit rs
      | Some p \<Rightarrow> p # papers_of_results authors_limit institutions_limit rs)"

subsection \<open>\<open>save_papers_to_csv\<close>\<close>

text \<open>
  The row handed to the CSV writer: the paper with its two lists joined by \<open>"; "\<close>.
\<close>

record csv_row =
  row_title :: string
  row_abstract :: string
  row_url :: "string option"
  row_publication_year :: "int option"
  row_authors :: string
  row_institutions :: string

definition csv_row_of :: "paper \<Rightarrow> csv_row" where
  "csv_row_of p =
     \<lparr>row_title = paper_title p, row_abstract = paper_abstract p, row_url = paper_url p,
      row_publication_year = paper_publication_year p,
      row_authors = py_join ''; '' (paper_authors p),
      row_institutions = py_join ''; '' (paper_institutions p)\<rparr>"

text \<open>
  The outside of the collector: the HTTP request with its JSON decoding, the creation of
  the output directory, and the writing of the CSV file.
\<close>

record 'w collector_env =
  http_get_results :: "'w \<Rightarrow> string \<Rightarrow> nat \<Rightarrow> (exn + api_result list) \<times> 'w"
  makedirs :: "'w \<Rightarrow> (exn + unit) \<times> 'w"
  write_csv :: "'w \<Rightarrow> string \<Rightarrow> csv_row list \<Rightarrow> (exn + unit) \<times> 'w"

text \<open>
  \<open>save_papers_to_csv\<close> returns at once on an empty list; \<open>os.makedirs\<close> stands before
  the \<open>try\<close> and its exception leaves the function; an exception while writing is caught.
\<close>

definition save_papers_to_csv :: "'w collector_env \<Rightarrow> 'w \<Rightarrow> paper list \<Rightarrow> string \<Rightarrow> (exn + unit) \<times> 'w" where
  "save_papers_to_csv env w papers keyword =
     (if papers = [] then (Inr (), w)
      else (case makedirs env w of
              (Inl e, w1) \<Rightarrow> (Inl e, w1)
            | (Inr u, w1) \<Rightarrow>
                (case write_csv env w1 keyword (map csv_row_of papers) of
                   (r, w2) \<Rightarrow> (Inr (), w2))))"

text \<open>
  \<open>fetch_papers\<close>: every exception inside the \<open>try\<close> (the request, the decoding, the
  creation of the output directory) gives the empty list.
\<close>

definition fetch_papers :: "'w collector_env \<Rightarrow> nat \<Rightarrow> nat \<Rightarrow> 'w \<Rightarrow> string \<Rightarrow> nat \<Rightarrow> paper list \<times> 'w" where
  "fetch_papers env authors_limit institutions_limit w keyword limit =
     (case http_get_results env w keyword limit of
        (Inl e, w1) \<Rightarrow> ([], w1)
      | (Inr results, w1) \<Rightarrow>
          (let papers = papers_of_results authors_limit institutions_limit results
           in (case save_papers_to_csv env w1 papers keyword of
                 (Inl e, w2) \<Rightarrow> ([], w2)
               | (Inr u, w2) \<Rightarrow> (papers, w2))))"

subsection \<open>\<open>create_vector_db\<close>\<close>

text \<open>
  A metadata value of a vector-store document: \<open>None\<close>, an integer or a string. A
  metadata dict is the list of its items; \<open>d.get(k, dflt)\<close> is \<open>dict_get d k dflt\<close>.
\<close>

datatype meta_val = MNone | MInt int | MStr string

type_synonym metadata = "(string \<times> meta_val) list"

definition dict_get :: "metadata \<Rightarrow> string \<Rightarrow> meta_val \<Rightarrow> meta_val" where
  "dict_get d k dflt = (case map_of d k of None \<Rightarrow> dflt | Some v \<Rightarrow> v)"

record document =
  page_content :: string
  doc_metadata :: metadata

definition meta_of_str_option :: "string option \<Rightarrow> meta_val" where
  "meta_of_str_option x = (case x of None \<Rightarrow> MNone | Some s \<Rightarrow> MStr s)"

definition meta_of_int_option :: "int option \<Rightarrow> meta_val" where
  "meta_of_int_option x = (case x of None \<Rightarrow> MNone | Some i \<Rightarrow> MInt i)"

text \<open>
  The document of one paper: an abstract longer than 1000 characters is cut to its first
  1000 characters and marked.
\<close>

definition document_of_paper :: "paper \<Rightarrow> document" where
  "document_of_paper p =
     (let raw_abstract =
            (if length (paper_abstract p) > 1000
             then take 1000 (paper_abstract p) @ ''...(truncated)''
             else paper_abstract p)
      in \<lparr>page_content = ''Title: '' @ paper_title p @ [CHR 0x0A] @ ''Abstract: '' @ raw_abstract,
          doc_metadata =
            [(''title'', MStr (paper_title p)),
             (''url'', meta_of_str_option (paper_url p)),
             (''year'', meta_of_int_option (paper_publication_year p)),
             (''authors'', MStr (py_join '', '' (paper_authors p))),
             (''institutions'', MStr (py_join '', '' (paper_institutions p)))]\<rparr>)"

text \<open>
  What the insertion loop does to the outside, in order: a call of \<open>add_documents\<close> on a
  batch, a call of \<open>time.sleep\<close> with its seconds, the message of a failed attempt (batch
  index and attempt), and the message that a batch is skipped after its retries.
\<close>

datatype event =
    AddDocuments "document list"
  | Sleep nat
  | AttemptFailed nat nat
  | BatchSkipped nat

definition max_retries :: nat where
  "max_retries = 3"

text \<open>
  The loop \<open>for attempt in range(max_retries)\<close> over one batch, on the attempts still to
  run: a successful insertion leaves the loop (\<open>break\<close>); a failed one sleeps 5 seconds
  unless it was the last attempt, after which the batch is reported as skipped.
\<close>

fun add_with_retries ::
  "('w \<Rightarrow> document list \<Rightarrow> (exn + unit) \<times> 'w) \<Rightarrow> nat \<Rightarrow> document list \<Rightarrow> nat list \<Rightarrow>
   'w \<times> event list \<Rightarrow> 'w \<times> event list" where
  "add_with_retries add_documents i batch [] st = st"
| "add_with_retries add_documents i batch (attempt # attempts) (w, log) =
     (case add_documents w batch of
        (Inr u, w1) \<Rightarrow> (w1, log @ [AddDocuments batch])
      | (Inl e, w1) \<Rightarrow>
          (if attempt < max_retries - 1
           then add_with_retries add_documents i batch attempts
                  (w1, log @ [AddDocuments batch, AttemptFailed i attempt, Sleep 5])
           else add_with_retries add_documents i batch attempts
                  (w1, log @ [AddDocuments batch, AttemptFailed i attempt, BatchSkipped i])))"

text \<open>The loop \<open>for i in range(0, total_docs, batch_size)\<close>, on the indices still to run.\<close>

fun insert_batches ::
  "('w \<Rightarrow> document list \<Rightarrow> (exn + unit) \<times> 'w) \<Rightarrow> document list \<Rightarrow> nat \<Rightarrow> nat list \<Rightarrow>
   'w \<times> event list \<Rightarrow> 'w \<times> event list" where
  "insert_batches add_documents documents batch_size [] st = st"
| "insert_batches add_documents documents batch_size (i # is) st =
     insert_batches add_documents documents batch_size is
       (add_with_retries add_documents i (take batch_size (drop i documents)) [0..<max_retries] st)"

text \<open>\<open>range(0, stop, step)\<close> for a positive \<open>step\<close>.\<close>

definition py_range_step :: "nat \<Rightarrow> nat \<Rightarrow> nat list" where
  "py_range_step stop step = map (\<lambda>k. k * step) [0..<(stop + step - 1) div step]"

text \<open>
  The outside of \<open>create_vector_db\<close>: opening the store and adding a batch of documents.
\<close>

record 'w store_env =
  chroma_open :: "'w \<Rightarrow> (exn + unit) \<times> 'w"
  add_documents :: "'w \<Rightarrow> document list \<Rightarrow> (exn + unit) \<times> 'w"

text \<open>
  \<open>create_vector_db\<close> returns \<open>None\<close> on an empty list of papers and the store otherwise
  (\<open>Some ()\<close>). Opening the store stands outside every \<open>try\<close>, and so does \<open>range\<close>,
  which raises \<open>ValueError\<close> on a zero step.
\<close>

definition create_vector_db ::
  "'w store_env \<Rightarrow> nat \<Rightarrow> 'w \<times> event list \<Rightarrow> paper list \<Rightarrow> (exn + unit option) \<times> ('w \<times> event list)" where
  "create_vector_db env batch_size st papers =
     (if papers = [] then (Inr None, st)
      else
        (let documents = map document_of_paper papers
         in (case chroma_open env (fst st) of
               (Inl e, w1) \<Rightarrow> (Inl e, (w1, snd st))
             | (Inr u, w1) \<Rightarrow>
                 (if batch_size = 0 then (Inl ValueError, (w1, snd st))
                  else (Inr (Some ()),
                        insert_batches (add_documents env) documents batch_size
                          (py_range_step (length documents) batch_size) (w1, snd st))))))"

section \<open>Topic Evaluator (agents/evaluator.py)\<close>

text \<open>The pydantic models \<open>ResearchTopic\<close>, \<open>EvaluationResult\<close> and \<open>EvaluatedTopic\<close>.\<close>

record research_topic =
  title :: string
  background :: string
  necessity :: string
  table_of_contents :: "string list"
  expected_effects :: string
  related_papers :: "metadata list"

record evaluation_result =
  originality_score :: int
  feasibility_score :: int
  impact_score :: int
  total_score :: int
  reasoning :: string

record evaluated_topic =
  topic :: research_topic
  evaluation :: evaluation_result

text \<open>
  \<open>list.sort(key=..., reverse=True)\<close> as CPython runs it: the list is reversed, sorted
  by a stable ascending sort on the keys, and reversed again.
\<close>

definition py_sort_reverse :: "('a \<Rightarrow> int) \<Rightarrow> 'a list \<Rightarrow> 'a list" where
  "py_sort_reverse key xs = rev (sort_key key (rev xs))"

text \<open>
  The chain \<open>prompt | llm | parser\<close>: one model call on the four fields of a topic that
  the prompt reads, which raises or returns a validated \<open>EvaluationResult\<close>.
\<close>

type_synonym 'w evaluator_chain = "'w \<Rightarrow> research_topic \<Rightarrow> (exn + evaluation_result) \<times> 'w"

text \<open>The body of the \<open>try\<close> after the model call: the total is recomputed when it is zero.\<close>

definition fix_total :: "evaluation_result \<Rightarrow> evaluation_result" where
  "fix_total ev =
     (if total_score ev = 0
      then ev\<lparr>total_score := originality_score ev + feasibility_score ev + impact_score ev\<rparr>
      else ev)"

definition default_eval :: evaluation_result where
  "default_eval =
     \<lparr>originality_score = 1, feasibility_score = 1, impact_score = 1, total_score = 3,
      reasoning = ''Evaluation failed.''\<rparr>"

text \<open>The loop \<open>for topic in topics\<close>: the list \<open>evaluated_topics\<close> before it is sorted.\<close>

fun evaluate_each :: "'w evaluator_chain \<Rightarrow> 'w \<Rightarrow> research_topic list \<Rightarrow> evaluated_topic list" where
  "evaluate_each chain w [] = []"
| "evaluate_each chain w (t # ts) =
     (case chain w t of
        (Inr ev, w1) \<Rightarrow> \<lparr>topic = t, evaluation = fix_total ev\<rparr> # evaluate_each chain w1 ts
      | (Inl e, w1) \<Rightarrow> \<lparr>topic = t, evaluation = default_eval\<rparr> # evaluate_each chain w1 ts)"

definition evaluate_topics :: "'w evaluator_chain \<Rightarrow> 'w \<Rightarrow> research_topic list \<Rightarrow> evaluated_topic list" where
  "evaluate_topics chain w topics =
     py_sort_reverse (\<lambda>x. total_score (evaluation x)) (evaluate_each chain w topics)"

section \<open>Topic Translator (agents/translator.py)\<close>

record translated_content =
  tr_title :: string
  tr_background :: string
  tr_necessity :: string
  tr_table_of_contents :: "string list"
  tr_expected_effects :: string
  tr_reasoning :: string

text \<open>
  The input of the translation chain: the target language and the six texts of the entry.
  The source passes \<open>str(topic.table_of_contents)\<close>; the model passes the list itself,
  of which that string is a function.
\<close>

record translation_input =
  in_target_language :: string
  in_title :: string
  in_background :: string
  in_necessity :: string
  in_toc :: "string list"
  in_expected_effects :: string
  in_reasoning :: string

type_synonym 'w translator_chain = "'w \<Rightarrow> translation_input \<Rightarrow> (exn + translated_content) \<times> 'w"

definition translation_input_of :: "string \<Rightarrow> evaluated_topic \<Rightarrow> translation_input" where
  "translation_input_of target_language item =
     \<lparr>in_target_language = target_language,
      in_title = title (topic item),
      in_background = background (topic item),
      in_necessity = necessity (topic item),
      in_toc = table_of_contents (topic item),
      in_expected_effects = expected_effects (topic item),
      in_reasoning = reasoning (evaluation item)\<rparr>"

text \<open>The new entry built from a translation and the original entry.\<close>

definition translated_entry :: "translated_content \<Rightarrow> evaluated_topic \<Rightarrow> evaluated_topic" where
  "translated_entry translation item =
     \<lparr>topic =
        \<lparr>title = tr_title translation,
         background = tr_background translation,
         necessity = tr_necessity translation,
         table_of_contents = tr_table_of_contents translation,
         expected_effects = tr_expected_effects translation,
         related_papers = related_papers (topic item)\<rparr>,
      evaluation =
        \<lparr>originality_score = originality_score (evaluation item),
         feasibility_score = feasibility_score (evaluation item),
         impact_score = impact_score (evaluation item),
         total_score = total_score (evaluation item),
         reasoning = tr_reasoning translation\<rparr>\<rparr>"

fun translate_topics :: "'w translator_chain \<Rightarrow> 'w \<Rightarrow> evaluated_topic list \<Rightarrow> string \<Rightarrow> evaluated_topic list" where
  "translate_topics chain w [] target_language = []"
| "translate_topics chain w (item # items) target_language =
     (case chain w (translation_input_of target_language item) of
        (Inr translation, w1) \<Rightarrow>
          translated_entry translation item # translate_topics chain w1 items target_language
      | (Inl e, w1) \<Rightarrow> item # translate_topics chain w1 items target_language)"

section \<open>Topic Generator (agents/generator.py)\<close>

subsection \<open>The retrieval context and the digest of the latest papers\<close>

text \<open>\<open>str(x)\<close> of a metadata value, as an f-string formats it.\<close>

fun str_nat :: "nat \<Rightarrow> string" where
  "str_nat n =
     (if n < 10 then [char_of (48 + n)]
      else str_nat (n div 10) @ [char_of (48 + n mod 10)])"

definition str_int :: "int \<Rightarrow> string" where
  "str_int i = (if i < 0 then ''-'' @ str_nat (nat (- i)) else str_nat (nat i))"

fun py_str :: "meta_val \<Rightarrow> string" where
  "py_str MNone = ''None''"
| "py_str (MInt i) = str_int i"
| "py_str (MStr s) = s"

fun is_MInt :: "meta_val \<Rightarrow> bool" where
  "is_MInt (MInt i) = True"
| "is_MInt v = False"

fun is_MStr :: "meta_val \<Rightarrow> bool" where
  "is_MStr (MStr s) = True"
| "is_MStr v = False"

fun int_of_meta :: "meta_val \<Rightarrow> int" where
  "int_of_meta (MInt i) = i"
| "int_of_meta v = 0"

fun str_of_meta :: "meta_val \<Rightarrow> string" where
  "str_of_meta (MStr s) = s"
| "str_of_meta v = []"

text \<open>
  \<open>sorted(xs, key=key, reverse=True)\<close> on keys that are metadata values. A list of at
  most one element is returned without a comparison. On a longer list every key is compared
  with another one: integers compare with integers and strings with strings, and every
  other comparison (with \<open>None\<close>, or of an integer with a string) raises \<open>TypeError\<close>.
  The sort is the stable sort of CPython: reverse, sort ascending, reverse.
\<close>

definition py_sorted_reverse :: "('a \<Rightarrow> meta_val) \<Rightarrow> 'a list \<Rightarrow> exn + 'a list" where
  "py_sorted_reverse key xs =
     (if length xs \<le> 1 then Inr xs
      else if list_all (\<lambda>x. is_MInt (key x)) xs
        then Inr (rev (sort_key (\<lambda>x. int_of_meta (key x)) (rev xs)))
      else if list_all (\<lambda>x. is_MStr (key x)) xs
        then Inr (rev (sort_key (\<lambda>x. str_of_meta (key x)) (rev xs)))
      else Inl TypeError)"

definition latest_title_line :: "metadata \<Rightarrow> string" where
  "latest_title_line doc =
     ''- ['' @ py_str (dict_get doc ''year'' (MStr ''N/A'')) @ ''] ''
       @ py_str (dict_get doc ''title'' (MStr ''Unknown Title''))"

text \<open>
  The first \<open>try\<close> of \<open>generate_topics\<close>, from the outcome of the retriever: the pair
  \<open>(context, latest_papers)\<close>. Any exception, of the retriever or of the sort, gives the
  two fixed texts of the \<open>except\<close> branch.
\<close>

definition retrieval_digest :: "exn + document list \<Rightarrow> string \<times> string" where
  "retrieval_digest retrieved =
     (case retrieved of
        Inl e \<Rightarrow> (''No specific context provided.'', ''No latest papers found.'')
      | Inr docs \<Rightarrow>
          (case py_sorted_reverse (\<lambda>x. dict_get x ''year'' (MInt 0)) (map doc_metadata docs) of
             Inl e \<Rightarrow> (''No specific context provided.'', ''No latest papers found.'')
           | Inr sorted_docs \<Rightarrow>
               (py_join [CHR 0x0A, CHR 0x0A] (map page_content docs),
                py_join [CHR 0x0A] (map latest_title_line (take 5 sorted_docs)))))"

subsection \<open>Cleaning the model's answer\<close>

text \<open>
  \<open>re.sub(r'<think>.*?</think>', '', s, flags=re.DOTALL)\<close>: from the left, every
  \<open><think>\<close> that has a \<open></think>\<close> after it is removed up to the first such
  \<open></think>\<close>; the scan goes on after the removed text.
\<close>

function remove_think :: "string \<Rightarrow> string" where
  "remove_think [] = []"
| "remove_think (c # cs) =
     (if prefix ''<think>'' (c # cs)
      then (case py_find ''</think>'' (drop 7 (c # cs)) of
              None \<Rightarrow> c # remove_think cs
            | Some j \<Rightarrow> remove_think (drop (7 + j + 8) (c # cs)))
      else c # remove_think cs)"
  by pat_completeness auto
termination
  by (relation "measure length") auto

text \<open>\<open>s.replace(old, new)\<close> for a non-empty \<open>old\<close>.\<close>

function py_replace :: "string \<Rightarrow> string \<Rightarrow> string \<Rightarrow> string" where
  "py_replace old new [] = []"
| "py_replace old new (c # cs) =
     (if old \<noteq> [] \<and> prefix old (c # cs)
      then new @ py_replace old new (drop (length old) (c # cs))
      else c # py_replace old new cs)"
  by pat_completeness auto
termination
  by (relation "measure (\<lambda>(old, new, s). length s)") (auto simp: prefix_def)

text \<open>\<open>c.isspace()\<close> on the code points below 256, and \<open>s.strip()\<close>.\<close>

definition py_isspace :: "char \<Rightarrow> bool" where
  "py_isspace c =
     (let n = (of_char c :: nat)
      in (9 \<le> n \<and> n \<le> 13) \<or> (28 \<le> n \<and> n \<le> 32) \<or> n = 133 \<or> n = 160)"

definition py_strip :: "string \<Rightarrow> string" where
  "py_strip s = rev (dropWhile py_isspace (rev (dropWhile py_isspace s)))"

definition code_fence :: string where
  "code_fence = [CHR 0x60, CHR 0x60, CHR 0x60]"

definition clean_content :: "string \<Rightarrow> string" where
  "clean_content raw_content =
     (let stripped =
            (if py_contains ''<think>'' raw_content
             then py_strip (remove_think raw_content)
             else raw_content)
      in py_strip (py_replace code_fence [] (py_replace (code_fence @ ''json'') [] stripped)))"

subsection \<open>\<open>generate_topics\<close>\<close>

text \<open>
  The variables of the prompt that change from call to call (the example JSON is a
  constant of the chain).
\<close>

record prompt_input =
  prompt_num_topics :: nat
  prompt_keyword :: string
  prompt_context :: string
  prompt_latest_papers :: string

text \<open>
  The outside of the generator: the retriever of the vector store (\<open>k\<close> documents for a
  query), the chain \<open>prompt | llm\<close> that returns the text of the answer, the similarity
  search of the store, \<open>json.loads\<close> on a text, and the validation \<open>TopicList(**json_data)\<close>
  of the decoded value \<open>'j\<close>, which gives the topics of the list.
\<close>

record ('w, 'j) generator_env =
  retriever_invoke :: "'w \<Rightarrow> string \<Rightarrow> nat \<Rightarrow> (exn + document list) \<times> 'w"
  chain_invoke :: "'w \<Rightarrow> prompt_input \<Rightarrow> (exn + string) \<times> 'w"
  similarity_search :: "'w \<Rightarrow> string \<Rightarrow> nat \<Rightarrow> (exn + document list) \<times> 'w"
  json_loads :: "string \<Rightarrow> exn + 'j"
  topic_list :: "'j \<Rightarrow> exn + research_topic list"

definition related_paper_of :: "document \<Rightarrow> metadata" where
  "related_paper_of doc =
     [(''title'', dict_get (doc_metadata doc) ''title'' (MStr ''Unknown Title'')),
      (''authors'', dict_get (doc_metadata doc) ''authors'' (MStr ''Unknown Authors'')),
      (''year'', dict_get (doc_metadata doc) ''year'' (MStr ''N/A'')),
      (''url'', dict_get (doc_metadata doc) ''url'' (MStr []))]"

text \<open>
  The loop that attaches the related papers: one search (\<open>k = 1\<close>) per topic; a failed
  search leaves the topic with an empty list.
\<close>

fun map_related_papers ::
  "('w \<Rightarrow> string \<Rightarrow> nat \<Rightarrow> (exn + document list) \<times> 'w) \<Rightarrow> 'w \<Rightarrow> research_topic list \<Rightarrow>
   research_topic list" where
  "map_related_papers search w [] = []"
| "map_related_papers search w (t # ts) =
     (case search w (title t) 1 of
        (Inr similar_docs, w1) \<Rightarrow>
          t\<lparr>related_papers := map related_paper_of similar_docs\<rparr> # map_related_papers search w1 ts
      | (Inl e, w1) \<Rightarrow> t\<lparr>related_papers := []\<rparr> # map_related_papers search w1 ts)"

definition vector_db_search_k :: nat where
  "vector_db_search_k = 10"

text \<open>
  The second \<open>try\<close> of \<open>generate_topics\<close>: \<open>Inl\<close> is an exception that reaches the outer
  \<open>except\<close>. A failure of the decoding or of the validation returns the empty list from
  inside.
\<close>

definition generate_topics_try ::
  "('w, 'j) generator_env \<Rightarrow> 'w \<Rightarrow> prompt_input \<Rightarrow> exn + research_topic list" where
  "generate_topics_try env w vars =
     (case chain_invoke env w vars of
        (Inl e, w1) \<Rightarrow> Inl e
      | (Inr raw_content, w1) \<Rightarrow>
          (case json_loads env (clean_content raw_content) of
             Inl e \<Rightarrow> Inr []
           | Inr json_data \<Rightarrow>
               (case topic_list env json_data of
                  Inl e \<Rightarrow> Inr []
                | Inr topics \<Rightarrow> Inr (map_related_papers (similarity_search env) w1 topics))))"

text \<open>
  \<open>generate_topics\<close>: \<open>Inl\<close> would be an exception raised to the caller, \<open>Inr\<close> is the
  list returned.
\<close>

definition generate_topics ::
  "('w, 'j) generator_env \<Rightarrow> 'w \<Rightarrow> string \<Rightarrow> nat \<Rightarrow> exn + research_topic list" where
  "generate_topics env w keyword num_topics =
     (case retriever_invoke env w keyword vector_db_search_k of
        (retrieved, w1) \<Rightarrow>
          (case generate_topics_try env w1
                  \<lparr>prompt_num_topics = num_topics, prompt_keyword = keyword,
                   prompt_context = fst (retrieval_digest retrieved),
                   prompt_latest_papers = snd (retrieval_digest retrieved)\<rparr> of
             Inl e \<Rightarrow> Inr []
           | Inr topics \<Rightarrow> Inr topics))"

section \<open>Notions of the specification\<close>

text \<open>
  All \<open>(position, word)\<close> pairs of an inverted index, as the specification names them.
\<close>

definition all_position_word_pairs :: "(string \<times> int list) list \<Rightarrow> (int \<times> string) list" where
  "all_position_word_pairs inverted_index =
     concat (map (\<lambda>(word, positions). map (\<lambda>pos. (pos, word)) positions) inverted_index)"

text \<open>The number of insertion attempts in a log: its calls of \<open>add_documents\<close>.\<close>

fun is_add_documents :: "event \<Rightarrow> bool" where
  "is_add_documents (AddDocuments b) = True"
| "is_add_documents e = False"

definition attempts_logged :: "event list \<Rightarrow> nat" where
  "attempts_logged log = length (filter is_add_documents log)"

text \<open>
  What the specification says a translation carries over: the three scores, the total score
  and the related papers of an entry.
\<close>

definition scores_and_links :: "evaluated_topic \<Rightarrow> int \<times> int \<times> int \<times> int \<times> metadata list" where
  "scores_and_links item =
     (originality_score (evaluation item), feasibility_score (evaluation item),
      impact_score (evaluation item), total_score (evaluation item),
      related_papers (topic item))"

section \<open>Concrete inputs\<close>

text \<open>A result with a title and a given inverted index, and no authorship.\<close>

definition titled_result :: "string \<Rightarrow> (string \<times> int list) list option \<Rightarrow> api_result" where
  "titled_result t idx =
     \<lparr>result_title = Some t, result_abstract_inverted_index = idx, result_authorships = [],
      result_id = None, result_publication_year = Some 2020\<rparr>"

text \<open>A collector whose request returns the given results and whose file system never fails.\<close>

definition quiet_collector_env :: "api_result list \<Rightarrow> unit collector_env" where
  "quiet_collector_env results =
     \<lparr>http_get_results = (\<lambda>w keyword limit. (Inr results, w)),
      makedirs = (\<lambda>w. (Inr (), w)),
      write_csv = (\<lambda>w keyword rows. (Inr (), w))\<rparr>"

text \<open>
  A result with four authorships: the first three at the institution \<open>U\<close>, the fourth at
  \<open>V\<close>; and the paper that \<open>fetch_papers\<close> builds from it under limits of three.
\<close>

definition authorship_at :: "string \<Rightarrow> string \<Rightarrow> authorship" where
  "authorship_at name inst = \<lparr>author_display_name = Some name, institution_display_names = [Some inst]\<rparr>"

definition four_author_result :: api_result where
  "four_author_result =
     \<lparr>result_title = Some ''T'', result_abstract_inverted_index = Some [(''w'', [0])],
      result_authorships =
        [authorship_at ''A1'' ''U'', authorship_at ''A2'' ''U'', authorship_at ''A3'' ''U'',
         authorship_at ''A4'' ''V''],
      result_id = None, result_publication_year = None\<rparr>"

definition four_author_paper :: paper where
  "four_author_paper =
     \<lparr>paper_title = ''T'', paper_abstract = ''w'', paper_url = None, paper_publication_year = None,
      paper_authors = [''A1'', ''A2'', ''A3''], paper_institutions = [''U'']\<rparr>"

text \<open>A paper with the given authors.\<close>

definition paper_with_authors :: "string list \<Rightarrow> paper" where
  "paper_with_authors names =
     \<lparr>paper_title = ''T'', paper_abstract = ''w'', paper_url = None, paper_publication_year = None,
      paper_authors = names, paper_institutions = []\<rparr>"

text \<open>
  Three stores whose world state counts the calls of \<open>add_documents\<close>: the first fails
  on its first two calls and succeeds afterwards, the second fails on every call, the third
  accepts every call. All open without an error.
\<close>

definition flaky_add :: "nat \<Rightarrow> document list \<Rightarrow> (exn + unit) \<times> nat" where
  "flaky_add w batch = (if w < 2 then Inl OtherException else Inr (), Suc w)"

definition failing_add :: "nat \<Rightarrow> document list \<Rightarrow> (exn + unit) \<times> nat" where
  "failing_add w batch = (Inl OtherException, Suc w)"

definition accepting_add :: "nat \<Rightarrow> document list \<Rightarrow> (exn + unit) \<times> nat" where
  "accepting_add w batch = (Inr (), Suc w)"

definition open_store_env :: "(nat \<Rightarrow> document list \<Rightarrow> (exn + unit) \<times> nat) \<Rightarrow> nat store_env" where
  "open_store_env add = \<lparr>chroma_open = (\<lambda>w. (Inr (), w)), add_documents = add\<rparr>"

text \<open>A paper with the given title.\<close>

definition sample_paper :: "string \<Rightarrow> paper" where
  "sample_paper t =
     \<lparr>paper_title = t, paper_abstract = ''w'', paper_url = None, paper_publication_year = None,
      paper_authors = [], paper_institutions = []\<rparr>"

text \<open>A topic with the given title, and a chain that answers every topic with one result.\<close>

definition titled_topic :: "string \<Rightarrow> research_topic" where
  "titled_topic t =
     \<lparr>title = t, background = ''b'', necessity = ''n'', table_of_contents = [''1''],
      expected_effects = ''e'', related_papers = []\<rparr>"

definition scores :: "int \<Rightarrow> int \<Rightarrow> int \<Rightarrow> int \<Rightarrow> evaluation_result" where
  "scores a b c t =
     \<lparr>originality_score = a, feasibility_score = b, impact_score = c, total_score = t,
      reasoning = ''r''\<rparr>"

definition constant_chain :: "evaluation_result \<Rightarrow> unit evaluator_chain" where
  "constant_chain ev w t = (Inr ev, w)"

text \<open>An entry, a translation of its texts, and a chain that fails on the title \<open>bad\<close>.\<close>

definition sample_entry :: "string \<Rightarrow> evaluated_topic" where
  "sample_entry t =
     \<lparr>topic =
        \<lparr>title = t, background = ''b'', necessity = ''n'', table_of_contents = [''1''],
         expected_effects = ''e'', related_papers = [[(''title'', MStr ''P'')]]\<rparr>,
      evaluation =
        \<lparr>originality_score = 2, feasibility_score = 3, impact_score = 4, total_score = 7,
         reasoning = ''r''\<rparr>\<rparr>"

definition sample_translation :: translated_content where
  "sample_translation =
     \<lparr>tr_title = ''T2'', tr_background = ''b2'', tr_necessity = ''n2'',
      tr_table_of_contents = [''1b''], tr_expected_effects = ''e2'', tr_reasoning = ''r2''\<rparr>"

definition sample_translator :: "unit translator_chain" where
  "sample_translator w x =
     (if in_title x = ''bad'' then Inl OtherException else Inr sample_translation, w)"

text \<open>
  A generator whose store finds nothing, whose model answers every prompt with one text, and
  with the given decoding and validation (the decoded value is a text here).
\<close>

definition answering_env ::
  "string \<Rightarrow> (string \<Rightarrow> exn + string) \<Rightarrow> (string \<Rightarrow> exn + research_topic list) \<Rightarrow>
   (unit, string) generator_env" where
  "answering_env answer loads validate =
     \<lparr>retriever_invoke = (\<lambda>w query k. (Inr [], w)),
      chain_invoke = (\<lambda>w vars. (Inr answer, w)),
      similarity_search = (\<lambda>w query k. (Inr [], w)),
      json_loads = loads,
      topic_list = validate\<rparr>"

text \<open>A document with the given content and metadata.\<close>

definition doc_with :: "string \<Rightarrow> metadata \<Rightarrow> document" where
  "doc_with c m = \<lparr>page_content = c, doc_metadata = m\<rparr>"

section \<open>Properties of the Paper Collector\<close>

subsection \<open>Abstract reconstruction\<close>

lemma fold_snoc_positions:
  "fold (\<lambda>pos acc. acc @ [(pos, word)]) positions acc = acc @ map (\<lambda>pos. (pos, word)) positions"
  by (induction positions arbitrary: acc) simp_all

lemma fold_append_positions:
  "fold append_positions items acc = acc @ all_position_word_pairs items"
  by (induction items arbitrary: acc)
     (simp_all add: all_position_word_pairs_def append_positions_def fold_snoc_positions split: prod.splits)

lemma sorted_fst_of_sorted:
  fixes xs :: "(int \<times> string) list"
  shows "sorted xs \<Longrightarrow> sorted (map fst xs)"
  by (induction xs) (auto simp: less_eq_prod_def)

text \<open>
  Claim C1. On a non-empty inverted index, \<open>_reconstruct_abstract\<close> returns the words of
  all \<open>(position, word)\<close> pairs of the index, sorted, joined by single spaces; the
  positions of the words joined are in ascending order, and the sorted pairs are the pairs of
  the index, each as often as it occurs there. For the index \<open>{"a": [0, 2], "b": [1]}\<close>
  the result is \<open>"a b a"\<close> (the witness).
\<close>

theorem reconstruct_abstract_ascending:
  assumes "inverted_index \<noteq> []"
  shows "reconstruct_abstract (Some inverted_index) =
           py_join '' '' (map snd (sort (all_position_word_pairs inverted_index)))
         \<and> sorted (map fst (sort (all_position_word_pairs inverted_index)))
         \<and> mset (sort (all_position_word_pairs inverted_index)) =
             mset (all_position_word_pairs inverted_index)"
proof -
  obtain item items where cons: "inverted_index = item # items"
    using assms by (cases inverted_index) auto
  have "fold append_positions (item # items) [] = all_position_word_pairs (item # items)"
    by (simp only: fold_append_positions append_Nil)
  with cons have "reconstruct_abstract (Some inverted_index) =
           py_join '' '' (map snd (sort (all_position_word_pairs inverted_index)))"
    by (simp add: reconstruct_abstract_def del: fold.simps)
  moreover have "sorted (map fst (sort (all_position_word_pairs inverted_index)))"
    by (rule sorted_fst_of_sorted) simp
  ultimately show ?thesis by simp
qed

theorem reconstruct_abstract_ascending_witness:
  "[(''a'', [0, 2]), (''b'', [1::int])] \<noteq> []
   \<and> reconstruct_abstract (Some [(''a'', [0, 2]), (''b'', [1])]) = ''a b a''"
  using reconstruct_abstract_ascending [of "[(''a'', [0, 2]), (''b'', [1])]"]
  by (simp add: all_position_word_pairs_def)

subsection \<open>Results without an abstract\<close>

lemma papers_of_results_append:
  "papers_of_results al il (rs1 @ rs2) = papers_of_results al il rs1 @ papers_of_results al il rs2"
  by (induction rs1) (simp_all split: option.splits)

lemma fetch_papers_cases:
  assumes "http_get_results env w keyword limit = (Inr results, w1)"
  shows "fst (fetch_papers env al il w keyword limit) = papers_of_results al il results
         \<or> fst (fetch_papers env al il w keyword limit) = []"
  using assms
  by (auto simp: fetch_papers_def Let_def split: prod.splits sum.splits)

text \<open>
  Claim C10. For a result whose abstract inverted index is absent, \<open>None\<close> or empty,
  \<open>_reconstruct_abstract\<close> returns the empty string and the result gives no paper,
  whatever its title: the papers of a list of results with such a result among them are the
  papers of the list without it, and \<open>fetch_papers\<close> returns these (or the empty list of
  its \<open>except\<close> branch).
\<close>

theorem empty_abstract_dropped:
  assumes "result_abstract_inverted_index r = None \<or> result_abstract_inverted_index r = Some []"
    and "http_get_results env w keyword limit = (Inr (rs1 @ r # rs2), w1)"
  shows "reconstruct_abstract (result_abstract_inverted_index r) = []
         \<and> paper_of_result al il r = None
         \<and> papers_of_results al il (rs1 @ r # rs2) = papers_of_results al il (rs1 @ rs2)
         \<and> (fst (fetch_papers env al il w keyword limit) = papers_of_results al il (rs1 @ rs2)
              \<or> fst (fetch_papers env al il w keyword limit) = [])"
proof -
  have a: "reconstruct_abstract (result_abstract_inverted_index r) = []"
    using assms(1) by (auto simp: reconstruct_abstract_def)
  then have p: "paper_of_result al il r = None"
    by (simp add: paper_of_result_def Let_def split: option.splits)
  then have l: "papers_of_results al il (rs1 @ r # rs2) = papers_of_results al il (rs1 @ rs2)"
    by (simp add: papers_of_results_append)
  from fetch_papers_cases [OF assms(2), of al il] l
  have "fst (fetch_papers env al il w keyword limit) = papers_of_results al il (rs1 @ rs2)
              \<or> fst (fetch_papers env al il w keyword limit) = []"
    by simp
  with a p l show ?thesis by simp
qed

theorem empty_abstract_dropped_witness:
  "(result_abstract_inverted_index (titled_result ''T'' (Some [])) = None
      \<or> result_abstract_inverted_index (titled_result ''T'' (Some [])) = Some [])
   \<and> map paper_title (fst (fetch_papers
        (quiet_collector_env
           [titled_result ''A'' (Some [(''x'', [0])]), titled_result ''T'' (Some []),
            titled_result ''B'' (Some [(''y'', [0])])]) 3 3 () ''k'' 200)) = [''A'', ''B'']"
proof -
  have "fst (fetch_papers
        (quiet_collector_env
           ([titled_result ''A'' (Some [(''x'', [0])])] @ titled_result ''T'' (Some []) #
            [titled_result ''B'' (Some [(''y'', [0])])])) 3 3 () ''k'' 200) =
        papers_of_results 3 3 ([titled_result ''A'' (Some [(''x'', [0])])] @ [titled_result ''B'' (Some [(''y'', [0])])])
     \<or> fst (fetch_papers
        (quiet_collector_env
           ([titled_result ''A'' (Some [(''x'', [0])])] @ titled_result ''T'' (Some []) #
            [titled_result ''B'' (Some [(''y'', [0])])])) 3 3 () ''k'' 200) = []"
    using empty_abstract_dropped [of "titled_result ''T'' (Some [])"
        "quiet_collector_env
           ([titled_result ''A'' (Some [(''x'', [0])])] @ titled_result ''T'' (Some []) #
            [titled_result ''B'' (Some [(''y'', [0])])])" "()" "''k''" 200
        "[titled_result ''A'' (Some [(''x'', [0])])]" "[titled_result ''B'' (Some [(''y'', [0])])]" "()" 3 3]
    by (simp add: titled_result_def quiet_collector_env_def)
  then show ?thesis
    by (simp add: titled_result_def quiet_collector_env_def fetch_papers_def save_papers_to_csv_def
        paper_of_result_def reconstruct_abstract_def append_positions_def collect_authorships_def Let_def)
qed

subsection \<open>Institutions of a paper\<close>

lemma add_institution_set:
  "set (add_institution x acc) \<subseteq> set acc \<union> {n. x = Some n}"
  by (auto simp: add_institution_def split: option.splits if_splits)

lemma add_institution_distinct:
  "distinct acc \<Longrightarrow> distinct (add_institution x acc)"
  by (auto simp: add_institution_def split: option.splits)

lemma fold_add_institution_set:
  "set (fold add_institution xs acc) \<subseteq> set acc \<union> {n. Some n \<in> set xs}"
proof (induction xs arbitrary: acc)
  case Nil
  then show ?case by simp
next
  case (Cons x xs)
  have "set (fold add_institution xs (add_institution x acc))
          \<subseteq> set (add_institution x acc) \<union> {n. Some n \<in> set xs}"
    by (rule Cons.IH)
  with add_institution_set [of x acc] show ?case by auto
qed

lemma fold_add_institution_distinct:
  "distinct acc \<Longrightarrow> distinct (fold add_institution xs acc)"
  by (induction xs arbitrary: acc) (simp_all add: add_institution_distinct)

lemma fold_add_authorship_institutions:
  "set (snd (fold add_authorship as acc))
     \<subseteq> set (snd acc) \<union> {n. \<exists>a\<in>set as. Some n \<in> set (institution_display_names a)}"
proof (induction as arbitrary: acc)
  case Nil
  then show ?case by simp
next
  case (Cons a as)
  have "set (snd (add_authorship a acc))
          \<subseteq> set (snd acc) \<union> {n. Some n \<in> set (institution_display_names a)}"
    using fold_add_institution_set [of "institution_display_names a" "snd acc"]
    by (cases acc) (simp add: add_authorship_def)
  with Cons.IH [of "add_authorship a acc"] show ?case by auto
qed

lemma fold_add_authorship_distinct:
  "distinct (snd acc) \<Longrightarrow> distinct (snd (fold add_authorship as acc))"
proof (induction as arbitrary: acc)
  case Nil
  then show ?case by simp
next
  case (Cons a as)
  from Cons.prems have "distinct (snd (add_authorship a acc))"
    by (cases acc) (simp add: add_authorship_def fold_add_institution_distinct)
  then show ?case using Cons.IH by simp
qed

lemma collect_authorships_institutions:
  "set (snd (collect_authorships al il as))
     \<subseteq> {n. \<exists>a\<in>set (take al as). Some n \<in> set (institution_display_names a)}"
proof -
  have "set (snd (collect_authorships al il as)) \<subseteq> set (snd (fold add_authorship (take al as) ([], [])))"
    by (auto simp: collect_authorships_def split: prod.splits dest: in_set_takeD)
  with fold_add_authorship_institutions [of "take al as" "([], [])"] show ?thesis by auto
qed

lemma collect_authorships_distinct: "distinct (snd (collect_authorships al il as))"
  using fold_add_authorship_distinct [of "([], [])" "take al as"]
  by (auto simp: collect_authorships_def split: prod.splits)

lemma collect_authorships_length: "length (snd (collect_authorships al il as)) \<le> il"
  by (auto simp: collect_authorships_def split: prod.splits)

lemma collect_authorships_take:
  "collect_authorships al il (take al as) = collect_authorships al il as"
  by (simp add: collect_authorships_def)

lemma paper_of_result_institutions:
  "paper_of_result al il r = Some p \<Longrightarrow>
   paper_institutions p = snd (collect_authorships al il (result_authorships r))"
  by (auto simp: paper_of_result_def Let_def split: option.splits if_splits)

text \<open>
  Claim C9. The institutions of a paper record come from the first \<open>AUTHORS_LIMIT\<close>
  authorships only: a name that no institution of these authorships carries is not in the
  record, and the record is the one of the result cut to its first \<open>AUTHORS_LIMIT\<close>
  authorships. The institutions kept are distinct and at most \<open>INSTITUTIONS_LIMIT\<close>. In
  the witness the fourth authorship alone has the institution \<open>V\<close>, one institution was
  collected under a limit of three, and \<open>V\<close> is not in the record.
\<close>

theorem institutions_only_from_first_authorships:
  assumes "paper_of_result authors_limit institutions_limit r = Some p"
    and "\<forall>a\<in>set (take authors_limit (result_authorships r)). Some n \<notin> set (institution_display_names a)"
  shows "n \<notin> set (paper_institutions p)
         \<and> paper_of_result authors_limit institutions_limit
             (r\<lparr>result_authorships := take authors_limit (result_authorships r)\<rparr>) = Some p
         \<and> distinct (paper_institutions p)
         \<and> length (paper_institutions p) \<le> institutions_limit"
proof -
  have eq: "paper_institutions p =
      snd (collect_authorships authors_limit institutions_limit (result_authorships r))"
    using assms(1) by (rule paper_of_result_institutions)
  have "n \<notin> set (paper_institutions p)"
    using collect_authorships_institutions [of authors_limit institutions_limit "result_authorships r"]
      assms(2) unfolding eq by auto
  moreover have "paper_of_result authors_limit institutions_limit
             (r\<lparr>result_authorships := take authors_limit (result_authorships r)\<rparr>) = Some p"
    using assms(1)
    by (auto simp: paper_of_result_def collect_authorships_take Let_def split: option.splits if_splits)
  moreover have "distinct (paper_institutions p)"
    unfolding eq by (rule collect_authorships_distinct)
  moreover have "length (paper_institutions p) \<le> institutions_limit"
    unfolding eq by (rule collect_authorships_length)
  ultimately show ?thesis by simp
qed

lemma four_author_paper_of_result: "paper_of_result 3 3 four_author_result = Some four_author_paper"
  by (simp add: paper_of_result_def four_author_result_def four_author_paper_def authorship_at_def
      reconstruct_abstract_def append_positions_def collect_authorships_def add_authorship_def
      add_institution_def Let_def)

theorem institutions_only_from_first_authorships_witness:
  "paper_of_result 3 3 four_author_result = Some four_author_paper
   \<and> Some ''V'' \<in> set (institution_display_names (result_authorships four_author_result ! 3))
   \<and> length (paper_institutions four_author_paper) < 3
   \<and> ''V'' \<notin> set (paper_institutions four_author_paper)"
proof -
  have h: "\<forall>a\<in>set (take 3 (result_authorships four_author_result)).
             Some ''V'' \<notin> set (institution_display_names a)"
    by (simp add: four_author_result_def authorship_at_def)
  from institutions_only_from_first_authorships [OF four_author_paper_of_result h]
  have "''V'' \<notin> set (paper_institutions four_author_paper)" by simp
  moreover have "Some ''V'' \<in> set (institution_display_names (result_authorships four_author_result ! 3))"
    by (simp add: four_author_result_def authorship_at_def)
  moreover have "length (paper_institutions four_author_paper) < 3"
    by (simp add: four_author_paper_def)
  ultimately show ?thesis using four_author_paper_of_result by simp
qed

subsection \<open>The authors column of the CSV file\<close>

lemma not_contains_Cons:
  "\<not> py_contains sep (c # cs) \<Longrightarrow> \<not> prefix sep (c # cs) \<and> \<not> py_contains sep cs"
  by (auto simp: py_contains_def split: if_splits option.splits)

lemma prefix_semicolon_space:
  "prefix ''; '' s = (\<exists>r. s = CHR '';'' # CHR '' '' # r)"
  by (auto simp: prefix_def)

lemma split_from_name:
  assumes "\<not> py_contains ''; '' n" and "rest = [] \<or> prefix ''; '' rest"
  shows "py_split_from ''; '' piece (n @ rest) = py_split_from ''; '' (rev n @ piece) rest"
  using assms
proof (induction n arbitrary: piece)
  case Nil
  then show ?case by simp
next
  case (Cons c cs)
  from Cons.prems(1) have np: "\<not> prefix ''; '' (c # cs)" and nc: "\<not> py_contains ''; '' cs"
    using not_contains_Cons by blast+
  have "\<not> prefix ''; '' (c # cs @ rest)"
  proof (cases cs)
    case Nil
    with Cons.prems(2) show ?thesis by (auto simp: prefix_semicolon_space)
  next
    case (Cons d ds)
    with np show ?thesis by (auto simp: prefix_semicolon_space)
  qed
  then have "py_split_from ''; '' piece ((c # cs) @ rest) = py_split_from ''; '' (c # piece) (cs @ rest)"
    by (simp only: append_Cons py_split_from.simps(2) simp_thms if_False)
  also have "\<dots> = py_split_from ''; '' (rev cs @ c # piece) rest"
    using Cons.IH [OF nc Cons.prems(2)] .
  finally show ?case by simp
qed

lemma split_from_sep:
  "py_split_from ''; '' piece (''; '' @ r) = rev piece # py_split_from ''; '' [] r"
  by simp

lemma split_join_names:
  assumes "\<forall>n\<in>set names. \<not> py_contains ''; '' n" and "names \<noteq> []"
  shows "py_split ''; '' (py_join ''; '' names) = names"
  using assms
proof (induction names rule: induct_list012)
  case 1
  then show ?case by simp
next
  case (2 x)
  then have "py_split_from ''; '' [] (x @ []) = py_split_from ''; '' (rev x @ []) []"
    by (intro split_from_name) simp_all
  then show ?case by (simp add: py_split_def)
next
  case (3 x y ys)
  have "py_split_from ''; '' [] (x @ (''; '' @ py_join ''; '' (y # ys)))
        = py_split_from ''; '' (rev x @ []) (''; '' @ py_join ''; '' (y # ys))"
    using "3.prems" by (intro split_from_name) simp_all
  also have "\<dots> = x # py_split_from ''; '' [] (py_join ''; '' (y # ys))"
    using split_from_sep [of "rev x" "py_join ''; '' (y # ys)"] by simp
  also have "py_split_from ''; '' [] (py_join ''; '' (y # ys)) = y # ys"
    using "3.IH"(2) "3.prems" by (simp add: py_split_def)
  finally show ?case by (simp add: py_split_def)
qed

text \<open>
  Claim C7, amended. For every list of names, the authors column of a CSV row is the names
  joined by \<open>"; "\<close>. When the list of names is not empty and no name contains
  \<open>"; "\<close>, splitting the column on \<open>"; "\<close> gives the list back. The names
  \<open>["X", "Y"]\<close> give \<open>"X; Y"\<close>, and the empty list gives the empty column (the
  witness).
\<close>

theorem csv_authors_roundtrip:
  "row_authors (csv_row_of p) = py_join ''; '' (paper_authors p)
   \<and> (paper_authors p \<noteq> [] \<and> (\<forall>n\<in>set (paper_authors p). \<not> py_contains ''; '' n) \<longrightarrow>
        py_split ''; '' (row_authors (csv_row_of p)) = paper_authors p)"
  using split_join_names [of "paper_authors p"] by (simp add: csv_row_of_def)

theorem csv_authors_roundtrip_witness:
  "paper_authors (paper_with_authors [''X'', ''Y'']) \<noteq> []
   \<and> row_authors (csv_row_of (paper_with_authors [''X'', ''Y''])) = ''X; Y''
   \<and> py_split ''; '' ''X; Y'' = [''X'', ''Y'']
   \<and> row_authors (csv_row_of (paper_with_authors [])) = []"
proof -
  have "\<forall>n\<in>set (paper_authors (paper_with_authors [''X'', ''Y''])). \<not> py_contains ''; '' n"
    by (simp add: paper_with_authors_def py_contains_def)
  with csv_authors_roundtrip [of "paper_with_authors [''X'', ''Y'']"]
    csv_authors_roundtrip [of "paper_with_authors []"]
  show ?thesis by (simp add: paper_with_authors_def csv_row_of_def)
qed

text \<open>
  The claim as stated fails on the empty list of names, whose column \<open>""\<close> splits into
  \<open>[""]\<close>, and on a name that contains the separator.
\<close>

theorem csv_authors_roundtrip_counterexample:
  "py_split ''; '' (row_authors (csv_row_of (paper_with_authors []))) \<noteq>
     paper_authors (paper_with_authors [])
   \<and> py_split ''; '' (row_authors (csv_row_of (paper_with_authors [''A; B'']))) \<noteq>
     paper_authors (paper_with_authors [''A; B''])"
  by (simp add: csv_row_of_def paper_with_authors_def py_split_def)

section \<open>Properties of the vector-store insertion\<close>

lemma add_with_retries_attempts:
  "attempts_logged (snd (add_with_retries add i batch attempts (w, log)))
     \<le> attempts_logged log + length attempts"
proof (induction attempts arbitrary: w log)
  case Nil
  then show ?case by simp
next
  case (Cons attempt attempts)
  show ?case
  proof (cases "add w batch")
    case (Pair r w1)
    show ?thesis
    proof (cases r)
      case (Inl e)
      have "attempts_logged (snd (add_with_retries add i batch attempts
                (w1, log @ [AddDocuments batch, AttemptFailed i attempt, Sleep 5])))
            \<le> attempts_logged (log @ [AddDocuments batch, AttemptFailed i attempt, Sleep 5]) + length attempts"
        by (rule Cons.IH)
      moreover have "attempts_logged (snd (add_with_retries add i batch attempts
                (w1, log @ [AddDocuments batch, AttemptFailed i attempt, BatchSkipped i])))
            \<le> attempts_logged (log @ [AddDocuments batch, AttemptFailed i attempt, BatchSkipped i]) + length attempts"
        by (rule Cons.IH)
      ultimately show ?thesis using Pair Inl by (simp add: attempts_logged_def)
    next
      case (Inr u)
      with Pair show ?thesis by (simp add: attempts_logged_def)
    qed
  qed
qed

lemma upt_max_retries: "[0..<max_retries] = [0, 1, 2]"
  by (simp add: max_retries_def upt_rec)

lemma retries_fail_fail_succeed:
  assumes "add w batch = (Inl e1, w1)" and "add w1 batch = (Inl e2, w2)"
    and "add w2 batch = (Inr u, w3)"
  shows "add_with_retries add i batch [0..<max_retries] (w, log) =
     (w3, log @ [AddDocuments batch, AttemptFailed i 0, Sleep 5,
                 AddDocuments batch, AttemptFailed i 1, Sleep 5,
                 AddDocuments batch])"
  unfolding upt_max_retries using assms by (simp add: max_retries_def)

lemma retries_fail_three_times:
  assumes "add w batch = (Inl e1, w1)" and "add w1 batch = (Inl e2, w2)"
    and "add w2 batch = (Inl e3, w3)"
  shows "add_with_retries add i batch [0..<max_retries] (w, log) =
     (w3, log @ [AddDocuments batch, AttemptFailed i 0, Sleep 5,
                 AddDocuments batch, AttemptFailed i 1, Sleep 5,
                 AddDocuments batch, AttemptFailed i 2, BatchSkipped i])"
  unfolding upt_max_retries using assms by (simp add: max_retries_def)

lemma create_vector_db_returns:
  assumes "papers \<noteq> []" and "0 < batch_size" and "chroma_open env w = (Inr u, w1)"
  shows "fst (create_vector_db env batch_size (w, log) papers) = Inr (Some ())"
  using assms by (simp add: create_vector_db_def Let_def)

lemma retries_succeed_at_once:
  assumes "add w batch = (Inr u, w1)"
  shows "add_with_retries add i batch [0..<max_retries] (w, log) = (w1, log @ [AddDocuments batch])"
  unfolding upt_max_retries using assms by simp

lemma retries_fail_succeed:
  assumes "add w batch = (Inl e1, w1)" and "add w1 batch = (Inr u, w2)"
  shows "add_with_retries add i batch [0..<max_retries] (w, log) =
     (w2, log @ [AddDocuments batch, AttemptFailed i 0, Sleep 5, AddDocuments batch])"
  unfolding upt_max_retries using assms by (simp add: max_retries_def)

lemma insert_batches_fold:
  "insert_batches add documents batch_size indices st =
     fold (\<lambda>i. add_with_retries add i (take batch_size (drop i documents)) [0..<max_retries])
       indices st"
  by (induction indices arbitrary: st) simp_all

lemma add_with_retries_log_extends:
  "\<exists>more. snd (add_with_retries add i batch attempts (w, log)) = log @ more"
proof (induction attempts arbitrary: w log)
  case Nil
  then show ?case by simp
next
  case (Cons attempt attempts)
  obtain r w1 where step: "add w batch = (r, w1)" by (cases "add w batch")
  show ?case
  proof (cases r)
    case (Inl e)
    obtain more1 where "snd (add_with_retries add i batch attempts
                (w1, log @ [AddDocuments batch, AttemptFailed i attempt, Sleep 5])) =
              (log @ [AddDocuments batch, AttemptFailed i attempt, Sleep 5]) @ more1"
      using Cons.IH by blast
    moreover obtain more2 where "snd (add_with_retries add i batch attempts
                (w1, log @ [AddDocuments batch, AttemptFailed i attempt, BatchSkipped i])) =
              (log @ [AddDocuments batch, AttemptFailed i attempt, BatchSkipped i]) @ more2"
      using Cons.IH by blast
    ultimately show ?thesis using step Inl by simp
  next
    case (Inr u)
    with step show ?thesis by simp
  qed
qed

lemma add_with_retries_keeps_log:
  "set (snd st) \<subseteq> set (snd (add_with_retries add i batch attempts st))"
proof (cases st)
  case (Pair w log)
  then show ?thesis using add_with_retries_log_extends [of add i batch attempts w log] by auto
qed

lemma add_with_retries_attempted:
  assumes "attempts \<noteq> []"
  shows "AddDocuments batch \<in> set (snd (add_with_retries add i batch attempts st))"
proof -
  obtain w log where st: "st = (w, log)" by (cases st)
  obtain attempt rest where at: "attempts = attempt # rest" using assms by (cases attempts) auto
  obtain r w1 where step: "add w batch = (r, w1)" by (cases "add w batch")
  show ?thesis
  proof (cases r)
    case (Inl e)
    have "AddDocuments batch \<in> set (log @ [AddDocuments batch, AttemptFailed i attempt, Sleep 5])"
      and "AddDocuments batch \<in> set (log @ [AddDocuments batch, AttemptFailed i attempt, BatchSkipped i])"
      by simp_all
    then show ?thesis
      using add_with_retries_keeps_log [of "(w1, log @ [AddDocuments batch, AttemptFailed i attempt, Sleep 5])" add i batch rest]
        add_with_retries_keeps_log [of "(w1, log @ [AddDocuments batch, AttemptFailed i attempt, BatchSkipped i])" add i batch rest]
        st at step Inl
      by (auto simp del: add_with_retries.simps(1) set_append)
  next
    case (Inr u)
    with st at step show ?thesis by simp
  qed
qed

lemma insert_batches_keeps_log:
  "set (snd st) \<subseteq> set (snd (insert_batches add documents batch_size indices st))"
proof (induction indices arbitrary: st)
  case Nil
  then show ?case by simp
next
  case (Cons i indices)
  have "set (snd st) \<subseteq> set (snd (add_with_retries add i (take batch_size (drop i documents)) [0..<max_retries] st))"
    by (rule add_with_retries_keeps_log)
  also have "\<dots> \<subseteq> set (snd (insert_batches add documents batch_size (i # indices) st))"
    using Cons.IH by simp
  finally show ?case .
qed

lemma insert_batches_attempts_every_batch:
  assumes "i \<in> set indices"
  shows "AddDocuments (take batch_size (drop i documents))
           \<in> set (snd (insert_batches add documents batch_size indices st))"
  using assms
proof (induction indices arbitrary: st)
  case Nil
  then show ?case by simp
next
  case (Cons j indices)
  show ?case
  proof (cases "i = j")
    case True
    have "AddDocuments (take batch_size (drop j documents))
            \<in> set (snd (add_with_retries add j (take batch_size (drop j documents)) [0..<max_retries] st))"
      by (rule add_with_retries_attempted) (simp add: upt_max_retries)
    then show ?thesis
      using insert_batches_keeps_log [of "add_with_retries add j (take batch_size (drop j documents)) [0..<max_retries] st"
          add documents batch_size indices] True
      by auto
  next
    case False
    with Cons.prems have "i \<in> set indices" by simp
    then show ?thesis using Cons.IH by simp
  qed
qed

lemma concat_batches_take:
  "concat (map (\<lambda>k. take step (drop (k * step) xs)) [0..<m]) = take (m * step) xs"
proof (induction m)
  case 0
  then show ?case by simp
next
  case (Suc m)
  have "take (m * step + step) xs = take (m * step) xs @ take step (drop (m * step) xs)"
    by (simp add: take_add)
  with Suc show ?case by (simp add: add.commute)
qed

lemma batches_cover:
  assumes "0 < step"
  shows "concat (map (\<lambda>i. take step (drop i xs)) (py_range_step (length xs) step)) = xs"
proof -
  have "length xs \<le> ((length xs + step - 1) div step) * step"
  proof -
    have "length xs + step - 1 < ((length xs + step - 1) div step) * step + step"
      using assms by (metis add.commute div_mult_mod_eq mod_less_divisor add_less_cancel_left)
    then show ?thesis using assms by arith
  qed
  then show ?thesis
    using concat_batches_take [of step xs "(length xs + step - 1) div step"]
    by (simp add: py_range_step_def comp_def)
qed


text \<open>
  Claim C8. The insertion of one batch runs over the attempts 0, 1, 2, and its log is fixed
  by the outcomes of \<open>add_documents\<close>: one call when the first succeeds; two calls and a
  sleep of 5 seconds between them when the first fails and the second succeeds; three calls,
  a sleep of 5 seconds after each of the two failures and no skipped batch when the third
  succeeds; three calls, a sleep of 5 seconds after the first and the second failure only,
  and the batch reported as skipped when all three fail, after which the loop over the
  batches goes on with the next index. A batch never has more than three attempts. The loop
  over the batches runs the insertion with its retries on the batch of every index in turn.
  Once the store is open, \<open>create_vector_db\<close> returns the store whatever the insertions
  do, after running that loop on the indices \<open>range(0, total_docs, batch_size)\<close>; the
  batches of these indices are the documents of the papers, in order, and the insertion of
  each of them is attempted.
\<close>

theorem batch_insertion_retries:
  "(add w batch = (Inr u, w1) \<longrightarrow>
      add_with_retries add i batch [0..<max_retries] (w, log) = (w1, log @ [AddDocuments batch]))
   \<and> (add w batch = (Inl e1, w1) \<and> add w1 batch = (Inr u, w2) \<longrightarrow>
      add_with_retries add i batch [0..<max_retries] (w, log) =
        (w2, log @ [AddDocuments batch, AttemptFailed i 0, Sleep 5, AddDocuments batch]))
   \<and> (add w batch = (Inl e1, w1) \<and> add w1 batch = (Inl e2, w2) \<and> add w2 batch = (Inr u, w3) \<longrightarrow>
      add_with_retries add i batch [0..<max_retries] (w, log) =
        (w3, log @ [AddDocuments batch, AttemptFailed i 0, Sleep 5,
                    AddDocuments batch, AttemptFailed i 1, Sleep 5,
                    AddDocuments batch]))
   \<and> (add w batch = (Inl e1, w1) \<and> add w1 batch = (Inl e2, w2) \<and> add w2 batch = (Inl e3, w3) \<longrightarrow>
      add_with_retries add i batch [0..<max_retries] (w, log) =
        (w3, log @ [AddDocuments batch, AttemptFailed i 0, Sleep 5,
                    AddDocuments batch, AttemptFailed i 1, Sleep 5,
                    AddDocuments batch, AttemptFailed i 2, BatchSkipped i])
      \<and> (batch = take batch_size (drop i documents) \<longrightarrow>
           insert_batches add documents batch_size (i # rest) (w, log) =
           insert_batches add documents batch_size rest
             (w3, log @ [AddDocuments batch, AttemptFailed i 0, Sleep 5,
                         AddDocuments batch, AttemptFailed i 1, Sleep 5,
                         AddDocuments batch, AttemptFailed i 2, BatchSkipped i])))
   \<and> attempts_logged (snd (add_with_retries add i batch [0..<max_retries] (w, log)))
        \<le> attempts_logged log + 3
   \<and> insert_batches add documents batch_size indices st =
        fold (\<lambda>i. add_with_retries add i (take batch_size (drop i documents)) [0..<max_retries])
          indices st
   \<and> (papers \<noteq> [] \<and> 0 < batch_size \<and> chroma_open env w = (Inr u, w1) \<longrightarrow>
        fst (create_vector_db env batch_size (w, log) papers) = Inr (Some ())
        \<and> snd (create_vector_db env batch_size (w, log) papers) =
            fold (\<lambda>i. add_with_retries (add_documents env) i
                         (take batch_size (drop i (map document_of_paper papers))) [0..<max_retries])
              (py_range_step (length papers) batch_size) (w1, log)
        \<and> concat (map (\<lambda>i. take batch_size (drop i (map document_of_paper papers)))
                    (py_range_step (length papers) batch_size)) = map document_of_paper papers
        \<and> (\<forall>i\<in>set (py_range_step (length papers) batch_size).
              AddDocuments (take batch_size (drop i (map document_of_paper papers)))
                \<in> set (snd (snd (create_vector_db env batch_size (w, log) papers)))))"
proof -
  have bound: "attempts_logged (snd (add_with_retries add i batch [0..<max_retries] (w, log)))
        \<le> attempts_logged log + 3"
    using add_with_retries_attempts [of add i batch "[0..<max_retries]" w log]
    by (simp add: max_retries_def)
  have at_once: "add w batch = (Inr u, w1) \<longrightarrow>
      add_with_retries add i batch [0..<max_retries] (w, log) = (w1, log @ [AddDocuments batch])"
    using retries_succeed_at_once [of add w batch u w1 i log] by blast
  have second: "add w batch = (Inl e1, w1) \<and> add w1 batch = (Inr u, w2) \<longrightarrow>
      add_with_retries add i batch [0..<max_retries] (w, log) =
        (w2, log @ [AddDocuments batch, AttemptFailed i 0, Sleep 5, AddDocuments batch])"
    using retries_fail_succeed [of add w batch e1 w1 u w2 i log] by blast
  have succeed: "add w batch = (Inl e1, w1) \<and> add w1 batch = (Inl e2, w2) \<and> add w2 batch = (Inr u, w3) \<longrightarrow>
      add_with_retries add i batch [0..<max_retries] (w, log) =
        (w3, log @ [AddDocuments batch, AttemptFailed i 0, Sleep 5,
                    AddDocuments batch, AttemptFailed i 1, Sleep 5,
                    AddDocuments batch])"
    using retries_fail_fail_succeed [of add w batch e1 w1 e2 w2 u w3 i log] by blast
  have skipped: "add w batch = (Inl e1, w1) \<and> add w1 batch = (Inl e2, w2) \<and> add w2 batch = (Inl e3, w3) \<longrightarrow>
      add_with_retries add i batch [0..<max_retries] (w, log) =
        (w3, log @ [AddDocuments batch, AttemptFailed i 0, Sleep 5,
                    AddDocuments batch, AttemptFailed i 1, Sleep 5,
                    AddDocuments batch, AttemptFailed i 2, BatchSkipped i])
      \<and> (batch = take batch_size (drop i documents) \<longrightarrow>
           insert_batches add documents batch_size (i # rest) (w, log) =
           insert_batches add documents batch_size rest
             (w3, log @ [AddDocuments batch, AttemptFailed i 0, Sleep 5,
                         AddDocuments batch, AttemptFailed i 1, Sleep 5,
                         AddDocuments batch, AttemptFailed i 2, BatchSkipped i]))"
  proof (intro impI conjI)
    assume a: "add w batch = (Inl e1, w1) \<and> add w1 batch = (Inl e2, w2) \<and> add w2 batch = (Inl e3, w3)"
    then show r: "add_with_retries add i batch [0..<max_retries] (w, log) =
        (w3, log @ [AddDocuments batch, AttemptFailed i 0, Sleep 5,
                    AddDocuments batch, AttemptFailed i 1, Sleep 5,
                    AddDocuments batch, AttemptFailed i 2, BatchSkipped i])"
      using retries_fail_three_times [of add w batch e1 w1 e2 w2 e3 w3 i log] by blast
    assume "batch = take batch_size (drop i documents)"
    with r show "insert_batches add documents batch_size (i # rest) (w, log) =
           insert_batches add documents batch_size rest
             (w3, log @ [AddDocuments batch, AttemptFailed i 0, Sleep 5,
                         AddDocuments batch, AttemptFailed i 1, Sleep 5,
                         AddDocuments batch, AttemptFailed i 2, BatchSkipped i])"
      by (simp only: insert_batches.simps)
  qed
  have folded: "insert_batches add documents batch_size indices st =
        fold (\<lambda>i. add_with_retries add i (take batch_size (drop i documents)) [0..<max_retries])
          indices st"
    by (rule insert_batches_fold)
  have run: "papers \<noteq> [] \<and> 0 < batch_size \<and> chroma_open env w = (Inr u, w1) \<longrightarrow>
        fst (create_vector_db env batch_size (w, log) papers) = Inr (Some ())
        \<and> snd (create_vector_db env batch_size (w, log) papers) =
            fold (\<lambda>i. add_with_retries (add_documents env) i
                         (take batch_size (drop i (map document_of_paper papers))) [0..<max_retries])
              (py_range_step (length papers) batch_size) (w1, log)
        \<and> concat (map (\<lambda>i. take batch_size (drop i (map document_of_paper papers)))
                    (py_range_step (length papers) batch_size)) = map document_of_paper papers
        \<and> (\<forall>i\<in>set (py_range_step (length papers) batch_size).
              AddDocuments (take batch_size (drop i (map document_of_paper papers)))
                \<in> set (snd (snd (create_vector_db env batch_size (w, log) papers))))"
  proof (intro impI)
    assume a: "papers \<noteq> [] \<and> 0 < batch_size \<and> chroma_open env w = (Inr u, w1)"
    let ?docs = "map document_of_paper papers"
    let ?indices = "py_range_step (length papers) batch_size"
    from a have cv: "create_vector_db env batch_size (w, log) papers =
        (Inr (Some ()), insert_batches (add_documents env) ?docs batch_size ?indices (w1, log))"
      by (simp add: create_vector_db_def Let_def)
    have cover: "concat (map (\<lambda>i. take batch_size (drop i ?docs)) ?indices) = ?docs"
      using batches_cover [of batch_size ?docs] a by simp
    have every: "\<forall>i\<in>set ?indices. AddDocuments (take batch_size (drop i ?docs))
                \<in> set (snd (snd (create_vector_db env batch_size (w, log) papers)))"
      unfolding cv using insert_batches_attempts_every_batch [of _ ?indices batch_size ?docs "add_documents env" "(w1, log)"]
      by simp
    from cv cover every
    show "fst (create_vector_db env batch_size (w, log) papers) = Inr (Some ())
        \<and> snd (create_vector_db env batch_size (w, log) papers) =
            fold (\<lambda>i. add_with_retries (add_documents env) i
                         (take batch_size (drop i ?docs)) [0..<max_retries]) ?indices (w1, log)
        \<and> concat (map (\<lambda>i. take batch_size (drop i ?docs)) ?indices) = ?docs
        \<and> (\<forall>i\<in>set ?indices. AddDocuments (take batch_size (drop i ?docs))
                \<in> set (snd (snd (create_vector_db env batch_size (w, log) papers))))"
      by (simp add: insert_batches_fold)
  qed
  from at_once second succeed skipped bound folded run show ?thesis by (intro conjI)
qed

theorem batch_insertion_retries_witness:
  "add_with_retries accepting_add 0 [document_of_paper (sample_paper ''A'')] [0..<max_retries] (0, []) =
     (1, [AddDocuments [document_of_paper (sample_paper ''A'')]])
   \<and> add_with_retries flaky_add 0 [document_of_paper (sample_paper ''A'')] [0..<max_retries] (1, []) =
     (3, [AddDocuments [document_of_paper (sample_paper ''A'')], AttemptFailed 0 0, Sleep 5,
          AddDocuments [document_of_paper (sample_paper ''A'')]])
   \<and> add_with_retries flaky_add 0 [document_of_paper (sample_paper ''A'')] [0..<max_retries] (0, []) =
     (3, [AddDocuments [document_of_paper (sample_paper ''A'')], AttemptFailed 0 0, Sleep 5,
          AddDocuments [document_of_paper (sample_paper ''A'')], AttemptFailed 0 1, Sleep 5,
          AddDocuments [document_of_paper (sample_paper ''A'')]])
   \<and> add_with_retries failing_add 0 [document_of_paper (sample_paper ''A'')] [0..<max_retries] (0, []) =
     (3, [AddDocuments [document_of_paper (sample_paper ''A'')], AttemptFailed 0 0, Sleep 5,
          AddDocuments [document_of_paper (sample_paper ''A'')], AttemptFailed 0 1, Sleep 5,
          AddDocuments [document_of_paper (sample_paper ''A'')], AttemptFailed 0 2, BatchSkipped 0])
   \<and> create_vector_db (open_store_env failing_add) 1 (0, []) [sample_paper ''A'', sample_paper ''B''] =
     (Inr (Some ()),
      (6, [AddDocuments [document_of_paper (sample_paper ''A'')], AttemptFailed 0 0, Sleep 5,
           AddDocuments [document_of_paper (sample_paper ''A'')], AttemptFailed 0 1, Sleep 5,
           AddDocuments [document_of_paper (sample_paper ''A'')], AttemptFailed 0 2, BatchSkipped 0,
           AddDocuments [document_of_paper (sample_paper ''B'')], AttemptFailed 1 0, Sleep 5,
           AddDocuments [document_of_paper (sample_paper ''B'')], AttemptFailed 1 1, Sleep 5,
           AddDocuments [document_of_paper (sample_paper ''B'')], AttemptFailed 1 2, BatchSkipped 1]))
   \<and> create_vector_db (open_store_env accepting_add) 1 (0, []) [sample_paper ''A'', sample_paper ''B''] =
     (Inr (Some ()),
      (2, [AddDocuments [document_of_paper (sample_paper ''A'')],
           AddDocuments [document_of_paper (sample_paper ''B'')]]))"
proof -
  let ?a = "document_of_paper (sample_paper ''A'')"
  let ?b = "document_of_paper (sample_paper ''B'')"
  let ?papers = "[sample_paper ''A'', sample_paper ''B'']"
  let ?skip_a = "[AddDocuments [?a], AttemptFailed 0 0, Sleep 5,
                  AddDocuments [?a], AttemptFailed 0 1, Sleep 5,
                  AddDocuments [?a], AttemptFailed 0 2, BatchSkipped 0]"
  have range: "py_range_step (Suc (Suc 0)) (Suc 0) = [0, Suc 0]"
    by (simp add: py_range_step_def upt_rec)
  have at_once: "add_with_retries accepting_add 0 [?a] [0..<max_retries] (0, []) =
     (1, [AddDocuments [?a]])"
    using batch_insertion_retries [where add = accepting_add and w = 0 and batch = "[?a]"
        and u = "()" and ?w1.0 = 1 and i = 0 and log = "[]"]
    by (simp add: accepting_add_def del: add_with_retries.simps)
  have at_once_b: "add_with_retries accepting_add 1 [?b] [0..<max_retries] (1, [AddDocuments [?a]]) =
     (2, [AddDocuments [?a], AddDocuments [?b]])"
    using batch_insertion_retries [where add = accepting_add and w = 1 and batch = "[?b]"
        and u = "()" and ?w1.0 = 2 and i = 1 and log = "[AddDocuments [?a]]"]
    by (simp add: accepting_add_def del: add_with_retries.simps)
  have once: "add_with_retries flaky_add 0 [?a] [0..<max_retries] (1, []) =
     (3, [AddDocuments [?a], AttemptFailed 0 0, Sleep 5, AddDocuments [?a]])"
    using batch_insertion_retries [where add = flaky_add and w = 1 and batch = "[?a]"
        and ?e1.0 = OtherException and ?w1.0 = 2 and u = "()" and ?w2.0 = 3 and i = 0 and log = "[]"]
    by (simp add: flaky_add_def del: add_with_retries.simps)
  have twice: "add_with_retries flaky_add 0 [?a] [0..<max_retries] (0, []) =
     (3, [AddDocuments [?a], AttemptFailed 0 0, Sleep 5,
          AddDocuments [?a], AttemptFailed 0 1, Sleep 5, AddDocuments [?a]])"
    using batch_insertion_retries [where add = flaky_add and w = 0 and batch = "[?a]"
        and ?e1.0 = OtherException and ?w1.0 = 1 and ?e2.0 = OtherException and ?w2.0 = 2
        and u = "()" and ?w3.0 = 3 and i = 0 and log = "[]"]
    by (simp add: flaky_add_def del: add_with_retries.simps)
  have thrice: "add_with_retries failing_add 0 [?a] [0..<max_retries] (0, []) = (3, ?skip_a)"
    using batch_insertion_retries [where add = failing_add and w = 0 and batch = "[?a]"
        and ?e1.0 = OtherException and ?w1.0 = 1 and ?e2.0 = OtherException and ?w2.0 = 2
        and ?e3.0 = OtherException and ?w3.0 = 3 and i = 0 and log = "[]"]
    by (simp add: failing_add_def del: add_with_retries.simps insert_batches.simps)
  have thrice_b: "add_with_retries failing_add 1 [?b] [0..<max_retries] (3, ?skip_a) =
     (6, ?skip_a @ [AddDocuments [?b], AttemptFailed 1 0, Sleep 5,
                    AddDocuments [?b], AttemptFailed 1 1, Sleep 5,
                    AddDocuments [?b], AttemptFailed 1 2, BatchSkipped 1])"
    using batch_insertion_retries [where add = failing_add and w = 3 and batch = "[?b]"
        and ?e1.0 = OtherException and ?w1.0 = 4 and ?e2.0 = OtherException and ?w2.0 = 5
        and ?e3.0 = OtherException and ?w3.0 = 6 and i = 1 and log = ?skip_a]
    by (simp add: failing_add_def del: add_with_retries.simps insert_batches.simps)
  have run_failing: "create_vector_db (open_store_env failing_add) 1 (0, []) ?papers =
     (Inr (Some ()),
      fold (\<lambda>i. add_with_retries failing_add i (take 1 (drop i [?a, ?b])) [0..<max_retries])
        [0, 1] (0, []))"
    using batch_insertion_retries [where env = "open_store_env failing_add" and w = 0
        and u = "()" and ?w1.0 = 0 and log = "[]" and papers = ?papers and batch_size = 1]
    by (simp add: open_store_env_def range prod_eq_iff del: add_with_retries.simps)
  have run_accepting: "create_vector_db (open_store_env accepting_add) 1 (0, []) ?papers =
     (Inr (Some ()),
      fold (\<lambda>i. add_with_retries accepting_add i (take 1 (drop i [?a, ?b])) [0..<max_retries])
        [0, 1] (0, []))"
    using batch_insertion_retries [where env = "open_store_env accepting_add" and w = 0
        and u = "()" and ?w1.0 = 0 and log = "[]" and papers = ?papers and batch_size = 1]
    by (simp add: open_store_env_def range prod_eq_iff del: add_with_retries.simps)
  from at_once at_once_b once twice thrice thrice_b run_failing run_accepting
  show ?thesis by (simp del: add_with_retries.simps)
qed

section \<open>Properties of the Topic Evaluator\<close>

text \<open>
  Claim C2. When the chain returns an evaluation for a topic, the entry of the topic keeps
  the returned total unless that total is zero, in which case the total is the sum of the
  three scores; the three scores and the reasoning are the returned ones. The scores
  (2, 3, 4) with a total of 0 give the total 9, and with a total of 7 the total 7 (the
  witness).
\<close>

theorem evaluate_total_policy:
  assumes "chain w t = (Inr ev, w1)"
  shows "evaluate_each chain w (t # ts) =
           \<lparr>topic = t,
            evaluation = ev\<lparr>total_score :=
              (if total_score ev = 0
               then originality_score ev + feasibility_score ev + impact_score ev
               else total_score ev)\<rparr>\<rparr> # evaluate_each chain w1 ts
         \<and> evaluate_topics chain w [t] =
           [\<lparr>topic = t,
             evaluation = ev\<lparr>total_score :=
               (if total_score ev = 0
                then originality_score ev + feasibility_score ev + impact_score ev
                else total_score ev)\<rparr>\<rparr>]"
  using assms by (simp add: evaluate_topics_def py_sort_reverse_def fix_total_def)

theorem evaluate_total_policy_witness:
  "map (\<lambda>x. total_score (evaluation x))
     (evaluate_topics (constant_chain (scores 2 3 4 0)) () [titled_topic ''T'']) = [9]
   \<and> map (\<lambda>x. total_score (evaluation x))
     (evaluate_topics (constant_chain (scores 2 3 4 7)) () [titled_topic ''T'']) = [7]"
  using evaluate_total_policy [of "constant_chain (scores 2 3 4 0)" "()" "titled_topic ''T''"
      "scores 2 3 4 0" "()"]
    evaluate_total_policy [of "constant_chain (scores 2 3 4 7)" "()" "titled_topic ''T''"
      "scores 2 3 4 7" "()"]
  by (simp add: constant_chain_def scores_def)

lemma evaluate_each_topics: "map topic (evaluate_each chain w topics) = topics"
  by (induction topics arbitrary: w) (simp_all split: prod.splits sum.splits)

lemma py_sort_reverse_descending:
  "sorted_wrt (\<lambda>x y. key y \<le> key x) (py_sort_reverse key xs)"
proof -
  have "sorted (map key (sort_key key (rev xs)))" by simp
  then have "sorted_wrt (\<lambda>x y. key x \<le> key y) (sort_key key (rev xs))"
    by (simp add: sorted_map)
  then show ?thesis
    by (simp add: py_sort_reverse_def sorted_wrt_rev)
qed

lemma py_sort_reverse_stable:
  "filter (\<lambda>x. key x = k) (py_sort_reverse key xs) = filter (\<lambda>x. key x = k) xs"
  by (simp add: py_sort_reverse_def rev_filter [symmetric] sort_key_stable)

lemma py_sort_reverse_mset: "mset (py_sort_reverse key xs) = mset xs"
  by (simp add: py_sort_reverse_def)

text \<open>
  Claim C3. The list returned by \<open>evaluate_topics\<close> is in descending order of the total
  score; it has the entries built by the loop, which stand there in the order of the input
  topics; and the entries of any one total score stand in the returned list in the order in
  which the loop built them.
\<close>

theorem evaluate_topics_sorted_stable:
  "sorted_wrt (\<lambda>x y. total_score (evaluation y) \<le> total_score (evaluation x))
     (evaluate_topics chain w topics)
   \<and> mset (evaluate_topics chain w topics) = mset (evaluate_each chain w topics)
   \<and> map topic (evaluate_each chain w topics) = topics
   \<and> (\<forall>k. filter (\<lambda>x. total_score (evaluation x) = k) (evaluate_topics chain w topics) =
            filter (\<lambda>x. total_score (evaluation x) = k) (evaluate_each chain w topics))"
  unfolding evaluate_topics_def
  using py_sort_reverse_descending [of "\<lambda>x. total_score (evaluation x)" "evaluate_each chain w topics"]
    py_sort_reverse_stable [of "\<lambda>x. total_score (evaluation x)" _ "evaluate_each chain w topics"]
  by (simp add: py_sort_reverse_mset evaluate_each_topics)

text \<open>
  Four topics of which the second scores 15, the fourth fails (total 3) and the others score
  3: the second comes first and the three ties keep their order.
\<close>

lemma evaluate_topics_ties_example:
  "map (\<lambda>x. title (topic x))
     (evaluate_topics (\<lambda>w t. (if title t = ''B'' then Inr (scores 5 5 5 0) else if title t = ''D'' then Inl TypeError else Inr (scores 1 1 1 0), w)) ()
        [titled_topic ''A'', titled_topic ''B'', titled_topic ''C'', titled_topic ''D'']) = [''B'', ''A'', ''C'', ''D'']"
  by (simp add: evaluate_topics_def py_sort_reverse_def titled_topic_def scores_def fix_total_def default_eval_def)

section \<open>Properties of the Topic Translator\<close>

lemma scores_and_links_translated:
  "scores_and_links (translated_entry translation item) = scores_and_links item"
  by (simp add: scores_and_links_def translated_entry_def)

lemma translate_topics_scores_and_links:
  "map scores_and_links (translate_topics chain w items target_language) =
   map scores_and_links items"
  by (induction items arbitrary: w)
     (simp_all add: scores_and_links_translated split: prod.splits sum.splits)

text \<open>
  Claim C6. The entries returned by \<open>translate_topics\<close> have, one by one, the three
  scores, the total score and the related papers of the input entries. When the chain
  returns a translation for an entry, the output entry has the six translated texts and
  nothing else new; when the chain fails on an entry, the output entry is the input entry.
\<close>

theorem translate_topics_preserves:
  "map scores_and_links (translate_topics chain w items target_language) =
     map scores_and_links items
   \<and> (chain w (translation_input_of target_language item) = (Inl e, w1) \<longrightarrow>
        translate_topics chain w (item # items) target_language =
          item # translate_topics chain w1 items target_language)
   \<and> (chain w (translation_input_of target_language item) = (Inr translation, w1) \<longrightarrow>
        translate_topics chain w (item # items) target_language =
          \<lparr>topic = (topic item)
              \<lparr>title := tr_title translation,
               background := tr_background translation,
               necessity := tr_necessity translation,
               table_of_contents := tr_table_of_contents translation,
               expected_effects := tr_expected_effects translation\<rparr>,
           evaluation = (evaluation item)\<lparr>reasoning := tr_reasoning translation\<rparr>\<rparr>
          # translate_topics chain w1 items target_language)"
  by (simp add: translate_topics_scores_and_links translated_entry_def)

theorem translate_topics_preserves_witness:
  "translate_topics sample_translator () [sample_entry ''bad'', sample_entry ''T''] ''Korean'' =
     [sample_entry ''bad'',
      \<lparr>topic =
         \<lparr>title = ''T2'', background = ''b2'', necessity = ''n2'', table_of_contents = [''1b''],
          expected_effects = ''e2'', related_papers = [[(''title'', MStr ''P'')]]\<rparr>,
       evaluation =
         \<lparr>originality_score = 2, feasibility_score = 3, impact_score = 4, total_score = 7,
          reasoning = ''r2''\<rparr>\<rparr>]"
proof -
  have first: "translate_topics sample_translator () [sample_entry ''bad'', sample_entry ''T''] ''Korean'' =
      sample_entry ''bad'' # translate_topics sample_translator () [sample_entry ''T''] ''Korean''"
    using translate_topics_preserves [of sample_translator "()" "[sample_entry ''T'']" "''Korean''"
        "sample_entry ''bad''" OtherException "()"]
    by (simp add: sample_translator_def translation_input_of_def sample_entry_def
        del: translate_topics.simps)
  have second: "translate_topics sample_translator () [sample_entry ''T''] ''Korean'' =
      [\<lparr>topic =
         \<lparr>title = ''T2'', background = ''b2'', necessity = ''n2'', table_of_contents = [''1b''],
          expected_effects = ''e2'', related_papers = [[(''title'', MStr ''P'')]]\<rparr>,
       evaluation =
         \<lparr>originality_score = 2, feasibility_score = 3, impact_score = 4, total_score = 7,
          reasoning = ''r2''\<rparr>\<rparr>]"
    using translate_topics_preserves [of sample_translator "()" "[]" "''Korean''"
        "sample_entry ''T''" _ "()" sample_translation]
    by (simp add: sample_translator_def translation_input_of_def sample_entry_def
        sample_translation_def del: translate_topics.simps(2))
  from first second show ?thesis by (simp del: translate_topics.simps)
qed

section \<open>Properties of the Topic Generator\<close>

lemma generate_topics_never_raises:
  "\<exists>topics. generate_topics env w keyword num_topics = Inr topics"
  by (auto simp: generate_topics_def split: prod.splits sum.splits)

text \<open>
  Claim C4. When the model returns a text whose cleaned content \<open>json.loads\<close> rejects, or
  whose decoded value the validation of the topic list rejects, \<open>generate_topics\<close> returns the empty
  list (a value, not an exception).
\<close>

theorem generate_topics_parse_failure:
  assumes "retriever_invoke env w keyword vector_db_search_k = (retrieved, w1)"
    and "chain_invoke env w1
           \<lparr>prompt_num_topics = num_topics, prompt_keyword = keyword,
            prompt_context = fst (retrieval_digest retrieved),
            prompt_latest_papers = snd (retrieval_digest retrieved)\<rparr> = (Inr raw_content, w2)"
    and "isl (json_loads env (clean_content raw_content))
         \<or> (\<exists>json_data. json_loads env (clean_content raw_content) = Inr json_data
                \<and> isl (topic_list env json_data))"
  shows "generate_topics env w keyword num_topics = Inr []"
  using assms
  by (auto simp: generate_topics_def generate_topics_try_def isl_def split: sum.splits)

theorem generate_topics_parse_failure_witness:
  "generate_topics (answering_env ''not json'' (\<lambda>s. Inl JSONDecodeError) (\<lambda>j. Inr [])) () ''k'' 5 = Inr []
   \<and> generate_topics (answering_env ''{}'' (\<lambda>s. Inr s) (\<lambda>j. Inl ValueError)) () ''k'' 5 = Inr []"
  using generate_topics_parse_failure [of "answering_env ''not json'' (\<lambda>s. Inl JSONDecodeError) (\<lambda>j. Inr [])"
      "()" "''k''" "Inr []" "()" 5 "''not json''" "()"]
    generate_topics_parse_failure [of "answering_env ''{}'' (\<lambda>s. Inr s) (\<lambda>j. Inl ValueError)"
      "()" "''k''" "Inr []" "()" 5 "''{}''" "()"]
  by (simp add: answering_env_def)

lemma py_sort_reverse_short: "length xs \<le> 1 \<Longrightarrow> py_sort_reverse key xs = xs"
  by (cases xs) (simp_all add: py_sort_reverse_def)

text \<open>
  When every year of the retrieved documents is an integer or absent, the digest is the
  lines of the five first documents in descending order of the year, an absent year counting
  as zero, ties in the order of retrieval.
\<close>

lemma retrieval_digest_integer_years:
  assumes "list_all (\<lambda>m. is_MInt (dict_get m ''year'' (MInt 0))) (map doc_metadata docs)"
  shows "retrieval_digest (Inr docs) =
     (py_join [CHR 0x0A, CHR 0x0A] (map page_content docs),
      py_join [CHR 0x0A]
        (map latest_title_line
           (take 5 (py_sort_reverse (\<lambda>m. int_of_meta (dict_get m ''year'' (MInt 0)))
                      (map doc_metadata docs)))))"
proof (cases "length docs \<le> 1")
  case True
  then show ?thesis
    by (simp add: retrieval_digest_def py_sorted_reverse_def py_sort_reverse_short)
next
  case False
  with assms show ?thesis
    by (simp add: retrieval_digest_def py_sorted_reverse_def py_sort_reverse_def)
qed

text \<open>
  Claim C5, at two retrieved documents of which the first has the year \<open>None\<close>: the sort
  raises \<open>TypeError\<close> inside the \<open>try\<close>, and the prompt gets the two fixed texts of the
  \<open>except\<close> branch instead of the context and the digest. With the year absent from the
  metadata of the first document, the digest has the two titles, the year 2021 first.
\<close>

theorem latest_papers_none_year:
  "retrieval_digest
     (Inr [doc_with ''c1'' [(''title'', MStr ''A''), (''year'', MNone)],
           doc_with ''c2'' [(''title'', MStr ''B''), (''year'', MInt 2021)]]) =
     (''No specific context provided.'', ''No latest papers found.'')
   \<and> retrieval_digest
     (Inr [doc_with ''c1'' [(''title'', MStr ''A'')],
           doc_with ''c2'' [(''title'', MStr ''B''), (''year'', MInt 2021)]]) =
     (''c1'' @ [CHR 0x0A, CHR 0x0A] @ ''c2'', ''- [2021] B'' @ [CHR 0x0A] @ ''- [N/A] A'')"
  by code_simp

end
